theory Spec2Isabelle
  imports Complex_Main
begin

section \<open>The parallel deblur command: scripts/parallel_deblur.py\<close>

text \<open>
  The repository's one source file is a command line script. Its function \<open>workflow\<close>
  splits a demultiplexed sequence file by sample, hands the split files to a parallel
  runner, and then calls a merge function on the tables found in the output directory.
  Everything the function does is a call into the operating system or into another
  package, so the model is a state-passing function over a small file system, with the
  calls into other packages taken as parameters and every exception as a value.
\<close>

subsection \<open>Exceptions\<close>

datatype error =
    NameError string
  | ValueError string
  | IOError string
  | OSError string
  | OtherError string

subsection \<open>posixpath\<close>

text \<open>
  \<open>dirname\<close>, \<open>split\<close> and \<open>join\<close> of the standard library's posixpath module.
  \<open>head_of p\<close> is \<open>p[:i]\<close> and \<open>tail_of p\<close> is \<open>p[i:]\<close> for \<open>i = p.rfind('/') + 1\<close>.
\<close>

definition rstrip_slashes :: "string \<Rightarrow> string" where
  "rstrip_slashes s = rev (dropWhile (\<lambda>c. c = CHR ''/'') (rev s))"

definition head_of :: "string \<Rightarrow> string" where
  "head_of p = rev (dropWhile (\<lambda>c. c \<noteq> CHR ''/'') (rev p))"

definition tail_of :: "string \<Rightarrow> string" where
  "tail_of p = rev (takeWhile (\<lambda>c. c \<noteq> CHR ''/'') (rev p))"

definition dirname :: "string \<Rightarrow> string" where
  "dirname p =
     (let head = head_of p
      in if head \<noteq> [] \<and> \<not> list_all (\<lambda>c. c = CHR ''/'') head
         then rstrip_slashes head else head)"

definition os_path_split :: "string \<Rightarrow> string \<times> string" where
  "os_path_split p = (dirname p, tail_of p)"

definition join :: "string \<Rightarrow> string \<Rightarrow> string" where
  "join a b =
     (if take 1 b = ''/'' then b
      else if a = [] \<or> take 1 (rev a) = ''/'' then a @ b
      else a @ ''/'' @ b)"

subsection \<open>The file system\<close>

text \<open>
  A file system is a list of entries, each a canonical absolute path with what is there;
  the process also has a working directory. Paths are looked up after squeezing runs of
  slashes and dropping a trailing slash, and a relative path is taken from the working
  directory. There are no symbolic links in the model.
\<close>

datatype node = Dir | File string

record os_state =
  files :: "(string \<times> node) list"
  cwd :: string

fun squeeze :: "string \<Rightarrow> string" where
  "squeeze (a # b # cs) =
     (if a = CHR ''/'' \<and> b = CHR ''/'' then squeeze (b # cs) else a # squeeze (b # cs))"
| "squeeze cs = cs"

definition canonical :: "os_state \<Rightarrow> string \<Rightarrow> string" where
  "canonical s p =
     (let q = squeeze (if take 1 p = ''/'' then p else join (cwd s) p)
      in if q = ''/'' then q else rstrip_slashes q)"

definition stat :: "os_state \<Rightarrow> string \<Rightarrow> node option" where
  "stat s p = map_of (files s) (canonical s p)"

definition exists :: "os_state \<Rightarrow> string \<Rightarrow> bool" where
  "exists s p = (stat s p \<noteq> None)"

definition isdir :: "os_state \<Rightarrow> string \<Rightarrow> bool" where
  "isdir s p = (stat s p = Some Dir)"

definition isfile :: "os_state \<Rightarrow> string \<Rightarrow> bool" where
  "isfile s p = (case stat s p of Some (File c) \<Rightarrow> True | _ \<Rightarrow> False)"

text \<open>The built-in \<open>open\<close> for reading: the content of the file, or IOError.\<close>

definition open_file :: "os_state \<Rightarrow> string \<Rightarrow> error + string" where
  "open_file s p = (case stat s p of Some (File c) \<Rightarrow> Inr c | _ \<Rightarrow> Inl (IOError p))"

text \<open>\<open>os.listdir\<close>: the names directly under a directory, or OSError.\<close>

definition listdir :: "os_state \<Rightarrow> string \<Rightarrow> error + string list" where
  "listdir s d =
     (case stat s d of
        Some Dir \<Rightarrow>
          Inr (remdups (map (\<lambda>e. tail_of (fst e))
                 (filter (\<lambda>e. dirname (fst e) = canonical s d \<and> tail_of (fst e) \<noteq> [])
                    (files s))))
      | _ \<Rightarrow> Inl (OSError d))"

subsection \<open>glob\<close>

text \<open>
  \<open>fnmatch\<close> for patterns made of \<open>*\<close>, \<open>?\<close> and literal characters; the two patterns
  the script matches names against are \<open>*\<close> and \<open>*.biom\<close>. Bracket classes are not
  modelled.
\<close>

fun fnmatch :: "string \<Rightarrow> string \<Rightarrow> bool" where
  "fnmatch [] [] = True"
| "fnmatch (c # n) [] = False"
| "fnmatch [] (p # ps) = (p = CHR ''*'' \<and> fnmatch [] ps)"
| "fnmatch (c # n) (p # ps) =
     (if p = CHR ''*'' then fnmatch (c # n) ps \<or> fnmatch n (p # ps)
      else (p = CHR ''?'' \<or> p = c) \<and> fnmatch n ps)"

definition has_magic :: "string \<Rightarrow> bool" where
  "has_magic p = (\<exists>c \<in> set p. c = CHR ''*'' \<or> c = CHR ''?'' \<or> c = CHR ''['')"

definition glob1 :: "os_state \<Rightarrow> string \<Rightarrow> string \<Rightarrow> string list" where
  "glob1 s d pat =
     (case listdir s d of
        Inl e \<Rightarrow> []
      | Inr names \<Rightarrow>
          filter (\<lambda>n. fnmatch n pat)
            (if take 1 pat \<noteq> ''.'' then filter (\<lambda>x. take 1 x \<noteq> ''.'') names else names))"

definition glob0 :: "os_state \<Rightarrow> string \<Rightarrow> string \<Rightarrow> string list" where
  "glob0 s d b =
     (if b = [] then (if isdir s d then [b] else [])
      else (if exists s (join d b) then [b] else []))"

text \<open>
  \<open>glob.glob\<close>. When the directory part of the pattern has wildcard characters of its
  own, the library expands it by a recursive call; that expansion is the parameter
  \<open>expand\<close>.
\<close>

definition glob :: "(os_state \<Rightarrow> string \<Rightarrow> string list) \<Rightarrow> os_state \<Rightarrow> string \<Rightarrow> string list" where
  "glob expand s pathname =
     (let d = fst (os_path_split pathname); b = snd (os_path_split pathname)
      in if \<not> has_magic pathname then
           (if b \<noteq> [] then (if exists s pathname then [pathname] else [])
            else (if isdir s d then [pathname] else []))
         else if d = [] then glob1 s ''.'' b
         else
           concat (map (\<lambda>d'. map (join d') ((if has_magic b then glob1 else glob0) s d' b))
             (if d \<noteq> pathname \<and> has_magic d then expand s d else [d])))"

subsection \<open>Python's str.split with a separator\<close>

fun split_on :: "char \<Rightarrow> string \<Rightarrow> string list" where
  "split_on sep [] = [[]]"
| "split_on sep (x # xs) =
     (if x = sep then [] # split_on sep xs
      else (case split_on sep xs of [] \<Rightarrow> [[x]] | y # ys \<Rightarrow> (x # y) # ys))"

subsection \<open>The module's names\<close>

text \<open>
  The names bound at module level when \<open>workflow\<close> runs: those of the import statements
  (lines 11 to 26) and the two functions the file defines.
\<close>

definition module_globals :: "string list" where
  "module_globals =
     [''click'', ''listdir'', ''dirname'', ''join'', ''isfile'', ''exists'', ''glob'',
      ''parse_fasta'', ''biom_open'', ''HAVE_H5PY'',
      ''split_sequence_file_on_sample_ids_to_files'', ''deblur'',
      ''launch_workflow'', ''trim_seqs'', ''dereplicate_seqs'', ''remove_artifacts_seqs'',
      ''multiple_sequence_alignment'', ''remove_chimeras_denovo_from_seqs'',
      ''generate_biom_table'', ''ParallelDeblur'', ''deblur_cmds'', ''workflow'']"

text \<open>The built-in namespace of Python 2.7: functions, constants and exception classes.\<close>

definition builtins :: "string list" where
  "builtins =
     [''abs'', ''all'', ''any'', ''apply'', ''basestring'', ''bin'', ''bool'', ''buffer'',
      ''bytearray'', ''bytes'', ''callable'', ''chr'', ''classmethod'', ''cmp'', ''coerce'',
      ''compile'', ''complex'', ''copyright'', ''credits'', ''delattr'', ''dict'', ''dir'',
      ''divmod'', ''enumerate'', ''eval'', ''execfile'', ''exit'', ''file'', ''filter'',
      ''float'', ''format'', ''frozenset'', ''getattr'', ''globals'', ''hasattr'', ''hash'',
      ''help'', ''hex'', ''id'', ''input'', ''int'', ''intern'', ''isinstance'',
      ''issubclass'', ''iter'', ''len'', ''license'', ''list'', ''locals'', ''long'',
      ''map'', ''max'', ''memoryview'', ''min'', ''next'', ''object'', ''oct'', ''open'',
      ''ord'', ''pow'', ''print'', ''property'', ''quit'', ''range'', ''raw_input'',
      ''reduce'', ''reload'', ''repr'', ''reversed'', ''round'', ''set'', ''setattr'',
      ''slice'', ''sorted'', ''staticmethod'', ''str'', ''sum'', ''super'', ''tuple'',
      ''type'', ''unichr'', ''unicode'', ''vars'', ''xrange'', ''zip'', ''__import__'',
      ''__debug__'', ''__doc__'', ''__name__'', ''__package__'',
      ''True'', ''False'', ''None'', ''NotImplemented'', ''Ellipsis'',
      ''BaseException'', ''SystemExit'', ''KeyboardInterrupt'', ''GeneratorExit'',
      ''Exception'', ''StopIteration'', ''StandardError'', ''BufferError'',
      ''ArithmeticError'', ''FloatingPointError'', ''OverflowError'',
      ''ZeroDivisionError'', ''AssertionError'', ''AttributeError'',
      ''EnvironmentError'', ''IOError'', ''OSError'', ''EOFError'', ''ImportError'',
      ''LookupError'', ''IndexError'', ''KeyError'', ''MemoryError'', ''NameError'',
      ''UnboundLocalError'', ''ReferenceError'', ''RuntimeError'',
      ''NotImplementedError'', ''SyntaxError'', ''IndentationError'', ''TabError'',
      ''SystemError'', ''TypeError'', ''ValueError'', ''UnicodeError'',
      ''UnicodeDecodeError'', ''UnicodeEncodeError'', ''UnicodeTranslateError'',
      ''Warning'', ''UserWarning'', ''DeprecationWarning'',
      ''PendingDeprecationWarning'', ''SyntaxWarning'', ''RuntimeWarning'',
      ''FutureWarning'', ''ImportWarning'', ''UnicodeWarning'', ''BytesWarning'']"

definition bound_name :: "string \<Rightarrow> bool" where
  "bound_name n = (n \<in> set module_globals \<or> n \<in> set builtins)"

subsection \<open>Arguments, collaborators and the state of a run\<close>

text \<open>
  The parameters of \<open>workflow\<close> as click hands them over. Floats are only carried, so
  their type is left open as \<open>'f\<close>.
\<close>

record 'f args =
  seqs_fp :: string
  output_fp :: string
  file_type :: string
  read_error :: 'f
  mean_error :: "'f option"
  error_dist :: "string option"
  indel_prob :: 'f
  indel_max :: int
  trim_length :: int
  min_size :: int
  ref_fp :: "string list"
  ref_db_fp :: "string list"
  negate :: bool
  threads :: int
  delim :: string
  buffer_size :: int
  jobs_to_start :: int
  retain_temp_files :: bool
  suppress_polling :: bool

text \<open>The values stored in the \<open>params\<close> dictionary, and the dictionary itself.\<close>

datatype pyval = PyTuple "string list" | PyInt int

type_synonym pydict = "(string \<times> pyval) list"

definition setitem :: "string \<Rightarrow> pyval \<Rightarrow> pydict \<Rightarrow> pydict" where
  "setitem k v d = (if k \<in> fst ` set d then map (\<lambda>e. if fst e = k then (k, v) else e) d
                    else d @ [(k, v)])"

text \<open>The keyword arguments the \<open>ParallelDeblur\<close> object is constructed with.\<close>

record pd_config =
  pd_jobs_to_start :: int
  pd_retain_temp_files :: bool
  pd_suppress_polling :: bool

text \<open>The calls into other packages a run has made, oldest first.\<close>

datatype call =
    Call_split string string string int
  | Call_runner pd_config "string list" string pydict
  | Call_merge string "string list"

record world =
  os :: os_state
  calls :: "call list"

text \<open>
  What the script calls and does not define. A call takes the state of the operating
  system and gives the exception it raised, if any, with the state it left.
  \<^item> \<open>py_float\<close> is the built-in \<open>float\<close> on a string, \<open>None\<close> where it raises ValueError;
  \<^item> \<open>iglob_dirs\<close> is the library's expansion of a directory pattern, see \<open>glob\<close>;
  \<^item> \<open>split_sequence_file_on_sample_ids_to_files\<close> is imported from qiime.util, called
    with the open file, the file type, the directory and the buffer size;
  \<^item> \<open>ParallelDeblur\<close> is imported from deblur.parallel_deblur; constructing the object
    and calling it are one step here, since nothing happens between them;
  \<^item> \<open>merge_otu_tables\<close> is what that name would denote if the module bound it.
\<close>

record 'f externals =
  py_float :: "string \<Rightarrow> 'f option"
  iglob_dirs :: "os_state \<Rightarrow> string \<Rightarrow> string list"
  split_sequence_file_on_sample_ids_to_files ::
    "string \<Rightarrow> string \<Rightarrow> string \<Rightarrow> int \<Rightarrow> os_state \<Rightarrow> error option \<times> os_state"
  ParallelDeblur ::
    "pd_config \<Rightarrow> string list \<Rightarrow> string \<Rightarrow> pydict \<Rightarrow> os_state \<Rightarrow> error option \<times> os_state"
  merge_otu_tables ::
    "string \<Rightarrow> string list \<Rightarrow> os_state \<Rightarrow> error option \<times> os_state"

subsection \<open>The function workflow\<close>

text \<open>
  A statement takes the state and gives the exception it raised, if any, with the state
  it left. \<open>name_lookup\<close> is the load of a global name: NameError when nothing binds it.
\<close>

type_synonym stmt = "world \<Rightarrow> error option \<times> world"

definition skip :: stmt where
  "skip w = (None, w)"

definition raise :: "error \<Rightarrow> stmt" where
  "raise e w = (Some e, w)"

definition seq :: "stmt \<Rightarrow> stmt \<Rightarrow> stmt" where
  "seq s t w = (case s w of (None, w') \<Rightarrow> t w' | (Some e, w') \<Rightarrow> (Some e, w'))"

definition name_lookup :: "string \<Rightarrow> stmt \<Rightarrow> stmt" where
  "name_lookup n k = (if bound_name n then k else raise (NameError n))"

definition call_external ::
  "(os_state \<Rightarrow> error option \<times> os_state) \<Rightarrow> call \<Rightarrow> stmt" where
  "call_external f c w =
     (case f (os w) of (r, s') \<Rightarrow> (r, w\<lparr>os := s', calls := calls w @ [c]\<rparr>))"

text \<open>Lines 113 and 114: the list of floats is bound to a local that is never read.\<close>

definition convert_error_dist :: "'f externals \<Rightarrow> 'f args \<Rightarrow> stmt" where
  "convert_error_dist ext a =
     (case error_dist a of
        None \<Rightarrow> skip
      | Some s \<Rightarrow>
          if s = [] then skip
          else name_lookup ''list'' (name_lookup ''map'' (name_lookup ''float''
                 (case find (\<lambda>x. py_float ext x = None) (split_on CHR '','' s) of
                    Some x \<Rightarrow> raise (ValueError x)
                  | None \<Rightarrow> skip))))"

text \<open>Lines 115 and 117.\<close>

definition out_dir :: "'f args \<Rightarrow> string" where
  "out_dir a = dirname (output_fp a)"

definition out_dir_split :: "'f args \<Rightarrow> string" where
  "out_dir_split a = join (out_dir a) ''split''"

text \<open>Lines 118 to 124.\<close>

definition split_step :: "'f externals \<Rightarrow> 'f args \<Rightarrow> stmt" where
  "split_step ext a =
     name_lookup ''exists'' (\<lambda>w.
       if \<not> exists (os w) (out_dir_split a) then
         name_lookup ''open'' (\<lambda>w.
           case open_file (os w) (seqs_fp a) of
             Inl e \<Rightarrow> raise e w
           | Inr seqs_f \<Rightarrow>
               name_lookup ''split_sequence_file_on_sample_ids_to_files''
                 (call_external
                    (split_sequence_file_on_sample_ids_to_files ext
                       seqs_f (file_type a) (out_dir_split a) (buffer_size a))
                    (Call_split seqs_f (file_type a) (out_dir_split a) (buffer_size a)))
                 w) w
       else skip w)"

text \<open>Lines 126 to 130: the dictionary handed to the runner.\<close>

definition params :: "'f args \<Rightarrow> pydict" where
  "params a =
     setitem ''jobs_to_start'' (PyInt (jobs_to_start a))
       (setitem ''ref_fp'' (PyTuple (ref_fp a))
          (setitem ''ref_db_fp'' (PyTuple (ref_db_fp a)) []))"

definition runner_config :: "'f args \<Rightarrow> pd_config" where
  "runner_config a =
     \<lparr>pd_jobs_to_start = jobs_to_start a,
      pd_retain_temp_files = retain_temp_files a,
      pd_suppress_polling = suppress_polling a\<rparr>"

text \<open>
  Lines 126 to 140. \<open>samples_fp\<close> of line 132 is never read; computing it raises OSError
  when the split directory cannot be listed, and \<open>isfile\<close> is looked up once there is a
  name to test (each name is tested as a path relative to the working directory).
\<close>

definition run_parallel :: "'f externals \<Rightarrow> 'f args \<Rightarrow> stmt" where
  "run_parallel ext a =
     name_lookup ''glob'' (\<lambda>w.
       let input_fps = glob (iglob_dirs ext) (os w) (out_dir_split a @ ''/*'')
       in name_lookup ''listdir'' (\<lambda>w.
            case listdir (os w) (out_dir_split a) of
              Inl e \<Rightarrow> raise e w
            | Inr names \<Rightarrow>
                (if names = [] then (\<lambda>k. k) else name_lookup ''isfile'')
                  (\<lambda>w. let samples_fp = filter (isfile (os w)) names
                        in name_lookup ''ParallelDeblur''
                             (call_external
                                (ParallelDeblur ext (runner_config a) input_fps (out_dir a)
                                   (params a))
                                (Call_runner (runner_config a) input_fps (out_dir a)
                                   (params a)))
                             w)
                  w) w)"

text \<open>Lines 141 to 143.\<close>

definition merge_step :: "'f externals \<Rightarrow> 'f args \<Rightarrow> stmt" where
  "merge_step ext a =
     name_lookup ''glob'' (\<lambda>w.
       let all_bioms = glob (iglob_dirs ext) (os w) (out_dir a @ ''/*.biom'')
       in name_lookup ''merge_otu_tables''
            (call_external
               (merge_otu_tables ext (output_fp a) all_bioms)
               (Call_merge (output_fp a) all_bioms))
            w)"

text \<open>Lines 112 to 140, and the whole body.\<close>

definition before_merge :: "'f externals \<Rightarrow> 'f args \<Rightarrow> stmt" where
  "before_merge ext a =
     seq (convert_error_dist ext a)
       (name_lookup ''dirname'' (name_lookup ''join''
          (seq (split_step ext a) (run_parallel ext a))))"

definition workflow :: "'f externals \<Rightarrow> 'f args \<Rightarrow> stmt" where
  "workflow ext a = seq (before_merge ext a) (merge_step ext a)"

text \<open>
  The exit status of the command: an exception that leaves \<open>workflow\<close> is not caught
  by the script, so the interpreter ends with status 1.
\<close>

definition exit_status :: "error option \<times> world \<Rightarrow> int" where
  "exit_status r = (case fst r of None \<Rightarrow> 0 | Some e \<Rightarrow> 1)"


definition is_merge_call :: "call \<Rightarrow> bool" where
  "is_merge_call c = (case c of Call_merge f bs \<Rightarrow> True | _ \<Rightarrow> False)"


subsection \<open>A run to evaluate\<close>

text \<open>
  A small file system, a splitter that writes two sample files, and a runner that writes
  one table per file it is given. Both succeed.
\<close>

definition example_os :: os_state where
  "example_os =
     \<lparr>files = [(''/'', Dir), (''/data'', Dir),
               (''/data/seqs.fna'', File ''>S1_0 ACGT >S2_0 ACGA''),
               (''/data/out'', Dir)],
      cwd = ''/data''\<rparr>"

definition example_split ::
  "string \<Rightarrow> string \<Rightarrow> string \<Rightarrow> int \<Rightarrow> os_state \<Rightarrow> error option \<times> os_state" where
  "example_split seqs_f ft d n s =
     (None, s\<lparr>files := files s @
        [(d, Dir), (join d ''S1.fna'', File ''>S1_0 ACGT''),
         (join d ''S2.fna'', File ''>S2_0 ACGA'')]\<rparr>)"

definition example_runner ::
  "pd_config \<Rightarrow> string list \<Rightarrow> string \<Rightarrow> pydict \<Rightarrow> os_state \<Rightarrow> error option \<times> os_state" where
  "example_runner c fps d ps s =
     (None, s\<lparr>files := files s @
        map (\<lambda>fp. (join d (tail_of fp @ ''.biom''), File ''table'')) fps\<rparr>)"

definition example_externals :: "rat externals" where
  "example_externals =
     \<lparr>py_float = (\<lambda>s. if s = ''0.1'' then Some (1 / 10) else None),
      iglob_dirs = (\<lambda>s d. []),
      split_sequence_file_on_sample_ids_to_files = example_split,
      ParallelDeblur = example_runner,
      merge_otu_tables = (\<lambda>fp bs s. (None, s))\<rparr>"

definition example_args :: "rat args" where
  "example_args =
     \<lparr>seqs_fp = ''/data/seqs.fna'', output_fp = ''/data/out/table.biom'',
      file_type = ''fasta'', read_error = 1 / 20, mean_error = None, error_dist = None,
      indel_prob = 1 / 100, indel_max = 3, trim_length = 100, min_size = 2,
      ref_fp = [''/data/ref.fa''], ref_db_fp = [], negate = False, threads = 1,
      delim = ''_'', buffer_size = 500, jobs_to_start = 1,
      retain_temp_files = False, suppress_polling = False\<rparr>"

definition example_world :: world where
  "example_world = \<lparr>os = example_os, calls = []\<rparr>"

text \<open>The state in which that run arrives at line 141.\<close>

definition example_files_after :: "(string \<times> node) list" where
  "example_files_after =
     [(''/'', Dir), (''/data'', Dir),
      (''/data/seqs.fna'', File ''>S1_0 ACGT >S2_0 ACGA''),
      (''/data/out'', Dir), (''/data/out/split'', Dir),
      (''/data/out/split/S1.fna'', File ''>S1_0 ACGT''),
      (''/data/out/split/S2.fna'', File ''>S2_0 ACGA''),
      (''/data/out/S1.fna.biom'', File ''table''),
      (''/data/out/S2.fna.biom'', File ''table'')]"

definition example_params :: pydict where
  "example_params =
     [(''ref_db_fp'', PyTuple []), (''ref_fp'', PyTuple [''/data/ref.fa'']),
      (''jobs_to_start'', PyInt 1)]"

definition example_calls_after :: "bool \<Rightarrow> call list" where
  "example_calls_after suppress =
     [Call_split ''>S1_0 ACGT >S2_0 ACGA'' ''fasta'' ''/data/out/split'' 500,
      Call_runner
        \<lparr>pd_jobs_to_start = 1, pd_retain_temp_files = False, pd_suppress_polling = suppress\<rparr>
        [''/data/out/split/S1.fna'', ''/data/out/split/S2.fna''] ''/data/out''
        example_params]"

definition example_after :: "bool \<Rightarrow> world" where
  "example_after suppress =
     \<lparr>os = \<lparr>files = example_files_after, cwd = ''/data''\<rparr>,
      calls = example_calls_after suppress\<rparr>"

text \<open>A second file system, in which the split directory is there and empty.\<close>

definition example_world_empty_split :: world where
  "example_world_empty_split =
     \<lparr>os = \<lparr>files = files example_os @ [(''/data/out/split'', Dir)], cwd = ''/data''\<rparr>,
      calls = []\<rparr>"






subsection \<open>The dispatcher behind the runner\<close>

text \<open>
  The class \<open>ParallelDeblur\<close> lives in deblur/parallel_deblur.py, which is not among the
  sources; what the script does is hand it \<open>jobs_to_start\<close> (line 134). The dispatcher
  below follows the specification's words: one handle per job descriptor, each handle
  Queued, Running, Succeeded or Failed, states never revisited, and a job started only
  while fewer than \<open>jobs_to_start\<close> are Running.
\<close>

datatype job_state = Queued | Running | Succeeded | Failed

text \<open>What the backend can ask of the dispatcher: start job \<open>i\<close>, or report it finished.\<close>

datatype event = Start nat | Finish nat bool

definition running :: "job_state list \<Rightarrow> nat" where
  "running hs = length (filter (\<lambda>h. h = Running) hs)"

text \<open>
  Modelled from the spec: the Dispatcher of section 4.3 (deblur/parallel_deblur.py is
  missing). A request that the rules do not allow leaves the handles as they are.
\<close>

fun dispatch :: "int \<Rightarrow> job_state list \<Rightarrow> event \<Rightarrow> job_state list" where
  "dispatch cap hs (Start i) =
     (if i < length hs \<and> hs ! i = Queued \<and> int (running hs) < cap
      then hs[i := Running] else hs)"
| "dispatch cap hs (Finish i ok) =
     (if i < length hs \<and> hs ! i = Running
      then hs[i := (if ok then Succeeded else Failed)] else hs)"

text \<open>
  Modelled from the spec: the handles observed after any sequence of requests, for \<open>n\<close>
  submitted descriptors and the capacity the script constructs the runner with.
\<close>

definition observe :: "pd_config \<Rightarrow> nat \<Rightarrow> event list \<Rightarrow> job_state list" where
  "observe c n evs = foldl (dispatch (pd_jobs_to_start c)) (replicate n Queued) evs"

subsection \<open>The merge of feature tables\<close>

text \<open>
  The script binds no merge function, and none is among the sources. A table is its
  feature set and its sample columns, each column giving the counts of the features seen
  in that sample.
\<close>

datatype merge_error = DuplicateSample

record table =
  features :: "string set"
  columns :: "string \<rightharpoonup> (string \<rightharpoonup> nat)"

definition samples :: "table \<Rightarrow> string set" where
  "samples t = dom (columns t)"

text \<open>
  Modelled from the spec: the Merger of section 4.5 on two tables (no merge function is
  in the sources): the union of the feature sets and of the sample columns, and
  DuplicateSample when a sample is in both.
\<close>

definition merge :: "table \<Rightarrow> table \<Rightarrow> merge_error + table" where
  "merge A B =
     (if samples A \<inter> samples B \<noteq> {} then Inl DuplicateSample
      else Inr \<lparr>features = features A \<union> features B, columns = columns A ++ columns B\<rparr>)"

text \<open>
  Modelled from the spec: the merge of two results of section 4.5, where an error of
  either side is fatal.
\<close>

definition merge_results ::
  "merge_error + table \<Rightarrow> merge_error + table \<Rightarrow> merge_error + table" where
  "merge_results x y =
     (case x of
        Inl e \<Rightarrow> Inl e
      | Inr A \<Rightarrow> (case y of Inl e \<Rightarrow> Inl e | Inr B \<Rightarrow> merge A B))"

definition example_table_1 :: table where
  "example_table_1 =
     \<lparr>features = {''ACGT''}, columns = [''S1'' \<mapsto> [''ACGT'' \<mapsto> 2]]\<rparr>"

definition example_table_2 :: table where
  "example_table_2 =
     \<lparr>features = {''ACGA''}, columns = [''S2'' \<mapsto> [''ACGA'' \<mapsto> 1]]\<rparr>"

definition example_table_3 :: table where
  "example_table_3 =
     \<lparr>features = {''ACGT'', ''ACGA''}, columns = [''S3'' \<mapsto> [''ACGT'' \<mapsto> 1, ''ACGA'' \<mapsto> 4]]\<rparr>"

section \<open>Name resolution\<close>

lemma unbound_merge_otu_tables: "\<not> bound_name ''merge_otu_tables''"
  by (simp add: bound_name_def module_globals_def builtins_def)

lemma bound_names_used:
  "bound_name ''list''" "bound_name ''map''" "bound_name ''float''"
  "bound_name ''dirname''" "bound_name ''join''" "bound_name ''exists''"
  "bound_name ''open''" "bound_name ''split_sequence_file_on_sample_ids_to_files''"
  "bound_name ''glob''" "bound_name ''listdir''" "bound_name ''isfile''"
  "bound_name ''ParallelDeblur''"
  by (simp_all add: bound_name_def module_globals_def builtins_def)

lemma name_lookup_bound:
  "name_lookup ''list'' k = k" "name_lookup ''map'' k = k" "name_lookup ''float'' k = k"
  "name_lookup ''dirname'' k = k" "name_lookup ''join'' k = k"
  "name_lookup ''exists'' k = k" "name_lookup ''open'' k = k"
  "name_lookup ''split_sequence_file_on_sample_ids_to_files'' k = k"
  "name_lookup ''glob'' k = k" "name_lookup ''listdir'' k = k"
  "name_lookup ''isfile'' k = k" "name_lookup ''ParallelDeblur'' k = k"
  by (simp_all only: name_lookup_def bound_names_used if_True)

lemma name_lookup_merge_otu_tables:
  "name_lookup ''merge_otu_tables'' k = raise (NameError ''merge_otu_tables'')"
  by (simp only: name_lookup_def unbound_merge_otu_tables if_False)

lemma merge_step_raises:
  "merge_step ext a w = (Some (NameError ''merge_otu_tables''), w)"
  by (simp add: merge_step_def name_lookup_bound name_lookup_merge_otu_tables raise_def Let_def)

lemma example_before_merge:
  "before_merge example_externals (example_args\<lparr>suppress_polling := b\<rparr>) example_world
     = (None, example_after b)"
  by (cases b; code_simp)

section \<open>The merge call\<close>

text \<open>
  C1. Every run of \<open>workflow\<close> that arrives at the merge step (lines 112 to 140 raised
  nothing) raises NameError for \<open>merge_otu_tables\<close>, a name that neither the file nor its
  imports bind; so no run of \<open>workflow\<close> returns.
\<close>

theorem workflow_raises_NameError:
  "fst (workflow ext a w) \<noteq> None \<and>
   (\<forall>w'. before_merge ext a w = (None, w') \<longrightarrow>
      workflow ext a w = (Some (NameError ''merge_otu_tables''), w'))"
  by (simp add: workflow_def seq_def merge_step_raises split: prod.splits option.splits)

theorem workflow_raises_NameError_witness:
  "before_merge example_externals example_args example_world = (None, example_after False) \<and>
   workflow example_externals example_args example_world
     = (Some (NameError ''merge_otu_tables''), example_after False)"
proof -
  have h: "before_merge example_externals example_args example_world
             = (None, example_after False)"
    using example_before_merge [of False] by (simp add: example_args_def)
  from workflow_raises_NameError [of example_externals example_args example_world]
  have "workflow example_externals example_args example_world
          = (Some (NameError ''merge_otu_tables''), example_after False)"
    using h by blast
  with h show ?thesis by simp
qed

section \<open>The guard of the split step\<close>

lemma listdir_Inr_exists: "listdir s d = Inr ns \<Longrightarrow> exists s d"
  by (auto simp: listdir_def exists_def split: option.splits node.splits)

lemma split_step_exists:
  "exists (os w) (out_dir_split a) \<Longrightarrow> split_step ext a w = (None, w)"
  by (simp add: split_step_def name_lookup_bound skip_def)

lemma split_step_not_exists:
  "\<not> exists (os w) (out_dir_split a) \<Longrightarrow>
   split_step ext a w =
     (case open_file (os w) (seqs_fp a) of
        Inl e \<Rightarrow> (Some e, w)
      | Inr seqs_f \<Rightarrow>
          call_external
            (split_sequence_file_on_sample_ids_to_files ext
               seqs_f (file_type a) (out_dir_split a) (buffer_size a))
            (Call_split seqs_f (file_type a) (out_dir_split a) (buffer_size a)) w)"
  by (simp add: split_step_def name_lookup_bound raise_def split: sum.splits)

text \<open>The split directory's path ends in \<open>split\<close>, so the pattern of line 127 lists it.\<close>

lemma out_dir_split_cases:
  "out_dir_split a = out_dir a @ ''split'' \<or> out_dir_split a = out_dir a @ ''/split''"
  by (simp add: out_dir_split_def join_def)

lemma dirname_star: "dirname (out_dir_split a @ ''/*'') = out_dir_split a"
  using out_dir_split_cases [of a]
  by (auto simp: dirname_def head_of_def rstrip_slashes_def Let_def)

lemma tail_star: "tail_of (p @ ''/*'') = ''*''"
  by (simp add: tail_of_def)

lemma has_magic_star: "has_magic (p @ ''/*'')"
  by (simp add: has_magic_def)

lemma out_dir_split_nonempty: "out_dir_split a \<noteq> []"
  using out_dir_split_cases [of a] by auto

lemma glob_split_dir:
  assumes "\<not> has_magic (out_dir_split a)"
  shows "glob ex s (out_dir_split a @ ''/*'') =
           map (join (out_dir_split a)) (glob1 s (out_dir_split a) ''*'')"
proof -
  have d: "fst (os_path_split (out_dir_split a @ ''/*'')) = out_dir_split a"
    by (simp add: os_path_split_def dirname_star)
  have b: "snd (os_path_split (out_dir_split a @ ''/*'')) = ''*''"
    by (simp add: os_path_split_def tail_star)
  have m: "has_magic ''*''"
    by (simp add: has_magic_def)
  show ?thesis
    unfolding glob_def Let_def d b
    by (simp only: has_magic_star m assms out_dir_split_nonempty simp_thms if_True if_False
        list.map concat.simps append_Nil2)
qed

lemma glob_empty_split_dir:
  "listdir s (out_dir_split a) = Inr [] \<Longrightarrow> \<not> has_magic (out_dir_split a) \<Longrightarrow>
   glob ex s (out_dir_split a @ ''/*'') = []"
  by (simp add: glob_split_dir glob1_def)



lemma run_parallel_eq:
  "run_parallel ext a w =
     (case listdir (os w) (out_dir_split a) of
        Inl e \<Rightarrow> (Some e, w)
      | Inr names \<Rightarrow>
          call_external
            (ParallelDeblur ext (runner_config a)
               (glob (iglob_dirs ext) (os w) (out_dir_split a @ ''/*'')) (out_dir a) (params a))
            (Call_runner (runner_config a)
               (glob (iglob_dirs ext) (os w) (out_dir_split a @ ''/*'')) (out_dir a) (params a))
            w)"
  by (simp add: run_parallel_def name_lookup_bound raise_def Let_def split: sum.splits)


text \<open>The paths and listings of the example runs.\<close>

lemma example_paths:
  "out_dir example_args = ''/data/out''"
  "out_dir_split example_args = ''/data/out/split''"
  by (simp_all add: out_dir_split_def out_dir_def example_args_def join_def dirname_def
      head_of_def rstrip_slashes_def)


lemma example_listdir_empty_split:
  "listdir (os example_world_empty_split) ''/data/out/split'' = Inr []"
  by (simp add: listdir_def stat_def canonical_def example_world_empty_split_def example_os_def
      dirname_def head_of_def tail_of_def rstrip_slashes_def)

lemma example_not_exists_split:
  "\<not> exists (os example_world) ''/data/out/split''"
  by (simp add: exists_def stat_def canonical_def example_world_def example_os_def
      rstrip_slashes_def)

lemma example_open_seqs:
  "open_file (os example_world) ''/data/seqs.fna'' = Inr ''>S1_0 ACGT >S2_0 ACGA''"
  by (simp add: open_file_def stat_def canonical_def example_world_def example_os_def
      rstrip_slashes_def)

lemma example_params_eq: "params example_args = example_params"
  by (simp add: params_def setitem_def example_args_def example_params_def)

lemma run_parallel_empty:
  "listdir (os w) (out_dir_split a) = Inr [] \<Longrightarrow> \<not> has_magic (out_dir_split a) \<Longrightarrow>
   run_parallel ext a w =
     call_external (ParallelDeblur ext (runner_config a) [] (out_dir a) (params a))
       (Call_runner (runner_config a) [] (out_dir a) (params a)) w"
  by (simp add: run_parallel_eq glob_empty_split_dir)














text \<open>
  C10. The split directory is \<open>join (dirname output_fp) "split"\<close>. The split step does
  nothing whenever that path exists, and goes on to open the sequence file and call the
  splitter whenever it does not: nothing else is looked at. So a split directory that is
  there and empty stays empty, and (its path having no wildcard character) the runner is
  called with an empty list of input files.
\<close>

theorem split_guard_existence_only:
  "out_dir_split a = join (dirname (output_fp a)) ''split'' \<and>
   (exists (os w) (out_dir_split a) \<longrightarrow> split_step ext a w = (None, w)) \<and>
   (\<not> exists (os w) (out_dir_split a) \<longrightarrow>
      split_step ext a w =
        (case open_file (os w) (seqs_fp a) of
           Inl e \<Rightarrow> (Some e, w)
         | Inr seqs_f \<Rightarrow>
             call_external
               (split_sequence_file_on_sample_ids_to_files ext
                  seqs_f (file_type a) (out_dir_split a) (buffer_size a))
               (Call_split seqs_f (file_type a) (out_dir_split a) (buffer_size a)) w)) \<and>
   (listdir (os w) (out_dir_split a) = Inr [] \<longrightarrow>
      split_step ext a w = (None, w) \<and>
      (\<not> has_magic (out_dir_split a) \<longrightarrow>
         run_parallel ext a w =
           call_external (ParallelDeblur ext (runner_config a) [] (out_dir a) (params a))
             (Call_runner (runner_config a) [] (out_dir a) (params a)) w))"
proof (intro conjI impI)
  show "out_dir_split a = join (dirname (output_fp a)) ''split''"
    by (simp add: out_dir_split_def out_dir_def)
next
  assume "exists (os w) (out_dir_split a)"
  then show "split_step ext a w = (None, w)" by (rule split_step_exists)
next
  assume "\<not> exists (os w) (out_dir_split a)"
  then show "split_step ext a w =
        (case open_file (os w) (seqs_fp a) of
           Inl e \<Rightarrow> (Some e, w)
         | Inr seqs_f \<Rightarrow>
             call_external
               (split_sequence_file_on_sample_ids_to_files ext
                  seqs_f (file_type a) (out_dir_split a) (buffer_size a))
               (Call_split seqs_f (file_type a) (out_dir_split a) (buffer_size a)) w)"
    by (rule split_step_not_exists)
next
  assume "listdir (os w) (out_dir_split a) = Inr []"
  then have "exists (os w) (out_dir_split a)" by (rule listdir_Inr_exists)
  then show "split_step ext a w = (None, w)" by (rule split_step_exists)
next
  assume "listdir (os w) (out_dir_split a) = Inr []" "\<not> has_magic (out_dir_split a)"
  then show "run_parallel ext a w =
           call_external (ParallelDeblur ext (runner_config a) [] (out_dir a) (params a))
             (Call_runner (runner_config a) [] (out_dir a) (params a)) w"
    by (rule run_parallel_empty)
qed

theorem split_guard_existence_only_witness:
  "out_dir_split example_args = ''/data/out/split'' \<and>
   exists (os example_world_empty_split) (out_dir_split example_args) \<and>
   listdir (os example_world_empty_split) (out_dir_split example_args) = Inr [] \<and>
   \<not> has_magic (out_dir_split example_args) \<and>
   split_step example_externals example_args example_world_empty_split
     = (None, example_world_empty_split) \<and>
   run_parallel example_externals example_args example_world_empty_split
     = call_external (example_runner (runner_config example_args) [] ''/data/out'' example_params)
         (Call_runner (runner_config example_args) [] ''/data/out'' example_params)
         example_world_empty_split \<and>
   \<not> exists (os example_world) (out_dir_split example_args) \<and>
   split_step example_externals example_args example_world
     = call_external
         (example_split ''>S1_0 ACGT >S2_0 ACGA'' ''fasta'' ''/data/out/split'' 500)
         (Call_split ''>S1_0 ACGT >S2_0 ACGA'' ''fasta'' ''/data/out/split'' 500)
         example_world"
proof -
  have d: "out_dir_split example_args = ''/data/out/split''" by (rule example_paths)
  have l: "listdir (os example_world_empty_split) (out_dir_split example_args) = Inr []"
    by (simp only: example_paths example_listdir_empty_split)
  have e: "exists (os example_world_empty_split) (out_dir_split example_args)"
    using l by (rule listdir_Inr_exists)
  have m: "\<not> has_magic (out_dir_split example_args)"
    by (simp add: example_paths has_magic_def)
  have n: "\<not> exists (os example_world) (out_dir_split example_args)"
    by (simp only: example_paths example_not_exists_split not_False_eq_True)
  have f: "open_file (os example_world) (seqs_fp example_args) = Inr ''>S1_0 ACGT >S2_0 ACGA''"
    using example_open_seqs by (simp add: example_args_def)
  have r: "ParallelDeblur example_externals = example_runner"
          "split_sequence_file_on_sample_ids_to_files example_externals = example_split"
          "file_type example_args = ''fasta''" "buffer_size example_args = 500"
    by (simp_all add: example_externals_def example_args_def)
  note t1 = split_guard_existence_only [of example_args example_world_empty_split example_externals]
  note t2 = split_guard_existence_only [of example_args example_world example_externals]
  from t1 e have s1: "split_step example_externals example_args example_world_empty_split
              = (None, example_world_empty_split)"
    by simp
  from t1 l m have "run_parallel example_externals example_args example_world_empty_split
     = call_external
         (ParallelDeblur example_externals (runner_config example_args) []
            (out_dir example_args) (params example_args))
         (Call_runner (runner_config example_args) [] (out_dir example_args)
            (params example_args))
         example_world_empty_split"
    by simp
  then have r1: "run_parallel example_externals example_args example_world_empty_split
     = call_external (example_runner (runner_config example_args) [] ''/data/out'' example_params)
         (Call_runner (runner_config example_args) [] ''/data/out'' example_params)
         example_world_empty_split"
    by (simp only: r example_paths example_params_eq)
  from t2 n have "split_step example_externals example_args example_world =
        (case open_file (os example_world) (seqs_fp example_args) of
           Inl e \<Rightarrow> (Some e, example_world)
         | Inr seqs_f \<Rightarrow>
             call_external
               (split_sequence_file_on_sample_ids_to_files example_externals
                  seqs_f (file_type example_args) (out_dir_split example_args)
                  (buffer_size example_args))
               (Call_split seqs_f (file_type example_args) (out_dir_split example_args)
                  (buffer_size example_args)) example_world)"
    by simp
  then have s2: "split_step example_externals example_args example_world
     = call_external
         (example_split ''>S1_0 ACGT >S2_0 ACGA'' ''fasta'' ''/data/out/split'' 500)
         (Call_split ''>S1_0 ACGT >S2_0 ACGA'' ''fasta'' ''/data/out/split'' 500)
         example_world"
    by (simp only: f r d sum.case)
  show ?thesis by (intro conjI d e l m s1 r1 n s2)
qed

section \<open>Options the function takes and does not use\<close>

lemma delim_stages:
  "convert_error_dist ext (a\<lparr>delim := d\<rparr>) = convert_error_dist ext a"
  "split_step ext (a\<lparr>delim := d\<rparr>) = split_step ext a"
  "run_parallel ext (a\<lparr>delim := d\<rparr>) = run_parallel ext a"
  "merge_step ext (a\<lparr>delim := d\<rparr>) = merge_step ext a"
  by (simp_all add: convert_error_dist_def split_step_def run_parallel_def merge_step_def
      out_dir_split_def out_dir_def params_def runner_config_def Let_def
      cong: sum.case_cong option.case_cong if_cong)

text \<open>
  C3. The partitioning does not follow the option \<open>--delim\<close>: the function never reads
  it, so a run with any other delimiter is the same run, with the same call of the
  splitter and the same files, whatever the splitter is.
\<close>

theorem delim_not_used: "workflow ext (a\<lparr>delim := d\<rparr>) w = workflow ext a w"
  by (simp only: workflow_def before_merge_def delim_stages)

text \<open>
  C4. The dictionary handed to the runner has the three keys \<open>ref_db_fp\<close>, \<open>ref_fp\<close> and
  \<open>jobs_to_start\<close> and no other: in the example run, with a trim length of 100 among
  the arguments, the runner is called with just those three entries.
\<close>

theorem runner_params_three_keys:
  "map fst (params a) = [''ref_db_fp'', ''ref_fp'', ''jobs_to_start''] \<and>
   trim_length example_args = 100 \<and>
   calls (snd (before_merge example_externals example_args example_world)) =
     [Call_split ''>S1_0 ACGT >S2_0 ACGA'' ''fasta'' ''/data/out/split'' 500,
      Call_runner
        \<lparr>pd_jobs_to_start = 1, pd_retain_temp_files = False, pd_suppress_polling = False\<rparr>
        [''/data/out/split/S1.fna'', ''/data/out/split/S2.fna''] ''/data/out''
        [(''ref_db_fp'', PyTuple []), (''ref_fp'', PyTuple [''/data/ref.fa'']),
         (''jobs_to_start'', PyInt 1)]]"
proof (intro conjI)
  show "map fst (params a) = [''ref_db_fp'', ''ref_fp'', ''jobs_to_start'']"
    by (simp add: params_def setitem_def)
  show "trim_length example_args = 100"
    by (simp add: example_args_def)
  have "before_merge example_externals example_args example_world = (None, example_after False)"
    using example_before_merge [of False] by (simp add: example_args_def)
  then show "calls (snd (before_merge example_externals example_args example_world)) =
     [Call_split ''>S1_0 ACGT >S2_0 ACGA'' ''fasta'' ''/data/out/split'' 500,
      Call_runner
        \<lparr>pd_jobs_to_start = 1, pd_retain_temp_files = False, pd_suppress_polling = False\<rparr>
        [''/data/out/split/S1.fna'', ''/data/out/split/S2.fna''] ''/data/out''
        [(''ref_db_fp'', PyTuple []), (''ref_fp'', PyTuple [''/data/ref.fa'']),
         (''jobs_to_start'', PyInt 1)]]"
    by (simp add: example_after_def example_calls_after_def example_params_def)
qed

section \<open>Runs that reach the merge call\<close>

text \<open>
  C2. With polling suppressed the example run still arrives at the merge call of line
  143, which no condition guards, and raises NameError there instead of returning.
\<close>

theorem suppressed_polling_reaches_merge:
  "before_merge example_externals (example_args\<lparr>suppress_polling := True\<rparr>) example_world
     = (None, example_after True) \<and>
   workflow example_externals (example_args\<lparr>suppress_polling := True\<rparr>) example_world
     = (Some (NameError ''merge_otu_tables''), example_after True)"
  by (simp add: workflow_def seq_def example_before_merge merge_step_raises)

lemma example_glob_bioms:
  "glob (iglob_dirs example_externals) (os (example_after False)) ''/data/out/*.biom''
     = [''/data/out/S1.fna.biom'', ''/data/out/S2.fna.biom'']"
  by code_simp

lemma example_no_output:
  "\<not> exists (os (example_after False)) ''/data/out/table.biom''"
  by (simp add: exists_def stat_def canonical_def example_after_def example_files_after_def
      rstrip_slashes_def)

lemma example_no_merge_call:
  "filter is_merge_call (calls (example_after False)) = []"
  by (simp add: example_after_def example_calls_after_def is_merge_call_def)

text \<open>
  C7. In the example run line 142 finds the two tables the runner wrote, and the call of
  line 143 raises NameError: no merge function is called and the output table is not
  written.
\<close>

theorem merge_call_raises_before_merging:
  "glob (iglob_dirs example_externals) (os (example_after False))
       (out_dir example_args @ ''/*.biom'')
     = [''/data/out/S1.fna.biom'', ''/data/out/S2.fna.biom''] \<and>
   workflow example_externals example_args example_world
     = (Some (NameError ''merge_otu_tables''), example_after False) \<and>
   filter is_merge_call (calls (example_after False)) = [] \<and>
   \<not> exists (os (example_after False)) (output_fp example_args)"
proof (intro conjI)
  show "glob (iglob_dirs example_externals) (os (example_after False))
          (out_dir example_args @ ''/*.biom'')
        = [''/data/out/S1.fna.biom'', ''/data/out/S2.fna.biom'']"
    using example_glob_bioms by (simp add: example_paths)
  have "before_merge example_externals example_args example_world = (None, example_after False)"
    using example_before_merge [of False] by (simp add: example_args_def)
  then show "workflow example_externals example_args example_world
               = (Some (NameError ''merge_otu_tables''), example_after False)"
    by (simp add: workflow_def seq_def merge_step_raises)
  show "filter is_merge_call (calls (example_after False)) = []"
    by (rule example_no_merge_call)
  show "\<not> exists (os (example_after False)) (output_fp example_args)"
    using example_no_output by (simp add: example_args_def)
qed

text \<open>
  C9. The exit status of the command is 1 on every run, also on the example run, in
  which the splitter and the runner both succeed and nothing before line 141 raises.
\<close>

theorem exit_status_never_zero:
  "exit_status (workflow ext a w) = 1 \<and>
   fst (before_merge example_externals example_args example_world) = None"
proof
  show "exit_status (workflow ext a w) = 1"
    by (simp add: exit_status_def workflow_def seq_def merge_step_raises
        split: prod.splits option.splits)
  show "fst (before_merge example_externals example_args example_world) = None"
    using example_before_merge [of False] by (simp add: example_args_def)
qed

section \<open>The dispatcher's bound\<close>

lemma running_update:
  "i < length hs \<Longrightarrow>
   running (hs[i := x]) + (if hs ! i = Running then 1 else 0)
     = running hs + (if x = Running then 1 else 0)"
proof (induction hs arbitrary: i)
  case Nil
  then show ?case by simp
next
  case (Cons h hs)
  show ?case
  proof (cases i)
    case 0
    then show ?thesis by (simp add: running_def)
  next
    case (Suc j)
    with Cons.prems have "j < length hs" by simp
    from Cons.IH [OF this] Suc show ?thesis
      by (simp add: running_def split: if_splits)
  qed
qed

lemma dispatch_keeps_bound:
  assumes "int (running hs) \<le> cap"
  shows "int (running (dispatch cap hs ev)) \<le> cap"
proof (cases ev)
  case (Start i)
  show ?thesis
  proof (cases "i < length hs \<and> hs ! i = Queued \<and> int (running hs) < cap")
    case True
    with running_update [of i hs Running] have "running (hs[i := Running]) = Suc (running hs)"
      by simp
    with True Start show ?thesis by simp
  next
    case False
    with Start assms show ?thesis by auto
  qed
next
  case (Finish i ok)
  show ?thesis
  proof (cases "i < length hs \<and> hs ! i = Running")
    case True
    with running_update [of i hs "if ok then Succeeded else Failed"]
    have "running (hs[i := (if ok then Succeeded else Failed)]) \<le> running hs"
      by (simp split: if_splits)
    with True Finish assms show ?thesis by simp
  next
    case False
    with Finish assms show ?thesis by auto
  qed
qed

lemma foldl_dispatch_bound:
  "int (running hs) \<le> cap \<Longrightarrow> int (running (foldl (dispatch cap) hs evs)) \<le> cap"
  by (induction evs arbitrary: hs) (simp_all add: dispatch_keeps_bound)

lemma running_replicate_Queued: "running (replicate n Queued) = 0"
  by (simp add: running_def)

text \<open>
  C6. However the backend's requests arrive, the handles the dispatcher holds never have
  more than \<open>jobs_to_start\<close> of them Running, for every positive \<open>jobs_to_start\<close> the
  script is given.
\<close>

theorem running_never_exceeds_jobs_to_start:
  "0 < jobs_to_start a \<Longrightarrow>
   int (running (observe (runner_config a) n evs)) \<le> jobs_to_start a"
  by (simp add: observe_def runner_config_def foldl_dispatch_bound running_replicate_Queued)

theorem running_never_exceeds_jobs_to_start_witness:
  "0 < jobs_to_start (example_args\<lparr>jobs_to_start := 2\<rparr>) \<and>
   observe (runner_config (example_args\<lparr>jobs_to_start := 2\<rparr>)) 3
       [Start 0, Start 1, Start 2, Finish 0 True, Start 2]
     = [Succeeded, Running, Running] \<and>
   int (running (observe (runner_config (example_args\<lparr>jobs_to_start := 2\<rparr>)) 3
       [Start 0, Start 1, Start 2])) \<le> 2"
proof -
  have p: "0 < jobs_to_start (example_args\<lparr>jobs_to_start := 2\<rparr>)" by simp
  have v: "jobs_to_start (example_args\<lparr>jobs_to_start := 2\<rparr>) = 2" by simp
  have o: "observe (runner_config (example_args\<lparr>jobs_to_start := 2\<rparr>)) 3
       [Start 0, Start 1, Start 2, Finish 0 True, Start 2]
     = [Succeeded, Running, Running]"
    by (simp add: observe_def runner_config_def running_def numeral_3_eq_3)
  from running_never_exceeds_jobs_to_start [OF p, of 3 "[Start 0, Start 1, Start 2]"]
  have b: "int (running (observe (runner_config (example_args\<lparr>jobs_to_start := 2\<rparr>)) 3
       [Start 0, Start 1, Start 2])) \<le> 2"
    by (simp only: v)
  show ?thesis by (intro conjI p o b)
qed

section \<open>The merge of tables with disjoint samples\<close>

lemma merge_commute:
  "samples A \<inter> samples B = {} \<Longrightarrow> merge A B = merge B A"
  by (simp add: merge_def samples_def Int_commute Un_commute map_add_comm)

lemma merge_Inr:
  "samples A \<inter> samples B = {} \<Longrightarrow>
   merge A B = Inr \<lparr>features = features A \<union> features B, columns = columns A ++ columns B\<rparr>"
  by (simp add: merge_def)

lemma samples_merged:
  "samples \<lparr>features = F, columns = columns A ++ columns B\<rparr> = samples A \<union> samples B"
  by (auto simp: samples_def)

text \<open>
  C8. On tables whose sample columns are disjoint, merging is commutative and
  associative: the order in which the tables are merged does not change the result.
\<close>

theorem merge_commutative_associative:
  assumes "samples A \<inter> samples B = {}" and "samples A \<inter> samples C = {}"
    and "samples B \<inter> samples C = {}"
  shows "merge A B = merge B A \<and>
         merge_results (merge A B) (Inr C) = merge_results (Inr A) (merge B C)"
proof
  show "merge A B = merge B A" using assms(1) by (rule merge_commute)
next
  have l: "(samples A \<union> samples B) \<inter> samples C = {}" using assms by auto
  have r: "samples A \<inter> (samples B \<union> samples C) = {}" using assms by auto
  show "merge_results (merge A B) (Inr C) = merge_results (Inr A) (merge B C)"
    by (simp add: merge_results_def merge_Inr samples_merged assms l r Un_assoc)
qed

theorem merge_commutative_associative_witness:
  "samples example_table_1 \<inter> samples example_table_2 = {} \<and>
   samples example_table_1 \<inter> samples example_table_3 = {} \<and>
   samples example_table_2 \<inter> samples example_table_3 = {} \<and>
   merge example_table_1 example_table_2 = merge example_table_2 example_table_1 \<and>
   merge_results (merge example_table_1 example_table_2) (Inr example_table_3)
     = merge_results (Inr example_table_1) (merge example_table_2 example_table_3)"
proof -
  have s: "samples example_table_1 = {''S1''}" "samples example_table_2 = {''S2''}"
          "samples example_table_3 = {''S3''}"
    by (simp_all add: samples_def example_table_1_def example_table_2_def example_table_3_def)
  have a: "samples example_table_1 \<inter> samples example_table_2 = {}" by (simp add: s)
  have b: "samples example_table_1 \<inter> samples example_table_3 = {}" by (simp add: s)
  have c: "samples example_table_2 \<inter> samples example_table_3 = {}" by (simp add: s)
  note t = merge_commutative_associative [OF a b c]
  show ?thesis by (intro conjI a b c t [THEN conjunct1] t [THEN conjunct2])
qed

end
